theory Spec2Isabelle
  imports Main "HOL-Library.Sublist"
begin

section \<open>The bootstrap script \<open>infra/app.py\<close>\<close>

text \<open>
  The module body of \<open>infra/app.py\<close> is a straight line of four calls into code that
  lives outside the file:
  \<^verbatim>\<open>
  env = cdk.Environment(account="940333627479", region="us-east-1")   # lines 6-9
  app = cdk.App()                                                     # line 11
  AgentBMCPSStack(app, "AgentBMCPSStack", env=env)                    # lines 15-17
  app.synth()                                                         # line 19
  \<close>
  Each of the four callees may raise; the script has no \<open>try\<close>, so a raised exception
  ends the run. The callees are parameters of the model, the exception a callee raises is
  the \<open>Inl\<close> of its result, and the run returns the list of calls it made together
  with its outcome.
\<close>

subsection \<open>Data\<close>

text \<open>The process environment, \<open>os.environ\<close>: the script imports \<open>os\<close> (line 2).\<close>

type_synonym environ = "string \<rightharpoonup> string"

text \<open>The value built by \<open>cdk.Environment(account=..., region=...)\<close>.\<close>

record Environment =
  account :: string
  region :: string

text \<open>
  The callees of the script. \<open>'app\<close> is the state of the application object, \<open>'out\<close>
  what \<open>synth\<close> produces and \<open>'exn\<close> the exceptions. The stack constructor registers
  the new stack with the application it is given (the script discards the stack object
  it returns), so it yields the application's new state.
\<close>

record ('app, 'out, 'exn) collaborators =
  cdk_Environment :: "string \<Rightarrow> string \<Rightarrow> 'exn + Environment"
  cdk_App :: "'exn + 'app"
  AgentBMCPSStack :: "'app \<Rightarrow> string \<Rightarrow> Environment \<Rightarrow> 'exn + 'app"
  synth :: "'app \<Rightarrow> 'exn + 'out"

text \<open>One call of the script into a callee, with the arguments it passed.\<close>

datatype 'app call =
    Call_Environment string string
  | Call_App
  | Call_Stack 'app string Environment
  | Call_synth 'app

subsection \<open>The script\<close>

text \<open>
  The module body with the two literals of lines 7 and 8 as parameters. The calls are
  listed in the order the file makes them; a call that raises is the last one of the run.
\<close>

definition bootstrap ::
  "string \<Rightarrow> string \<Rightarrow> ('app, 'out, 'exn) collaborators \<Rightarrow> 'app call list \<times> ('exn + 'out)" where
  "bootstrap acct reg K =
     (case cdk_Environment K acct reg of
        Inl e \<Rightarrow> ([Call_Environment acct reg], Inl e)
      | Inr env \<Rightarrow>
         (case cdk_App K of
            Inl e \<Rightarrow> ([Call_Environment acct reg, Call_App], Inl e)
          | Inr app \<Rightarrow>
             (case AgentBMCPSStack K app ''AgentBMCPSStack'' env of
                Inl e \<Rightarrow>
                  ([Call_Environment acct reg, Call_App,
                    Call_Stack app ''AgentBMCPSStack'' env], Inl e)
              | Inr app' \<Rightarrow>
                  ([Call_Environment acct reg, Call_App,
                    Call_Stack app ''AgentBMCPSStack'' env, Call_synth app'],
                   synth K app'))))"

text \<open>
  The file as it is: the literals of lines 7 and 8, and a process environment that no
  line reads (the \<open>os.getenv\<close> calls of lines 13 and 14 are inside a comment).
\<close>

definition app_py ::
  "environ \<Rightarrow> ('app, 'out, 'exn) collaborators \<Rightarrow> 'app call list \<times> ('exn + 'out)" where
  "app_py os_environ K = bootstrap ''940333627479'' ''us-east-1'' K"

subsection \<open>The steps the specification names\<close>

text \<open>
  The specification speaks of four steps: constructing the ApplicationContext, the
  EnvironmentDescriptor and the DeploymentUnit, and the finalize call. \<open>step_of\<close> names
  the step a call of the script performs.
\<close>

datatype step =
    Construct_ApplicationContext
  | Construct_EnvironmentDescriptor
  | Construct_DeploymentUnit
  | Finalize

fun step_of :: "'app call \<Rightarrow> step" where
  "step_of (Call_Environment a r) = Construct_EnvironmentDescriptor"
| "step_of Call_App = Construct_ApplicationContext"
| "step_of (Call_Stack app n env) = Construct_DeploymentUnit"
| "step_of (Call_synth app) = Finalize"

fun is_synth :: "'app call \<Rightarrow> bool" where
  "is_synth (Call_synth app) = True"
| "is_synth c = False"

subsection \<open>The callees, as the specification describes them\<close>

text \<open>
  \<open>aws_cdk\<close> and \<open>agent_b_mcp_server_stack\<close> are imported by the script (lines 3 and 4)
  and are not part of the file. The definitions of this subsection give the callees the
  behaviour the specification's data model and interface sections state.
\<close>

record DeploymentUnit =
  unit_name :: string
  unit_env :: Environment

record App =
  units :: "DeploymentUnit list"

datatype cdk_error =
    DuplicateName string
  | InvalidDescriptor
  | ConstructionRejected
  | SynthesisFailed

text \<open>
  Modelled from the spec: \<open>cdk.Environment\<close> (package \<open>aws_cdk\<close>). "A pure constructor
  taking two string-like identifiers (account, region) and producing an immutable
  descriptor value. No validation is performed by this component itself. No side
  effects. No error conditions at construction time."
\<close>

definition Environment_model :: "string \<Rightarrow> string \<Rightarrow> 'exn + Environment" where
  "Environment_model a r = Inr \<lparr>account = a, region = r\<rparr>"

text \<open>
  Modelled from the spec: \<open>cdk.App\<close> (package \<open>aws_cdk\<close>). "Construct an empty
  ApplicationContext", "the root container that owns zero or more deployment units".
\<close>

definition App_model :: "'exn + App" where
  "App_model = Inr \<lparr>units = []\<rparr>"

text \<open>
  Modelled from the spec: the constructor of \<open>AgentBMCPSStack\<close> (module
  \<open>agent_b_mcp_server_stack\<close>). It "accepts (owning application context, unique name
  string, environment descriptor) and returns a constructed unit", the unit "owns a name
  and an EnvironmentDescriptor", and "each deployment unit has a unique name within the
  context": a name the context already owns is rejected. The resources a unit declares
  are opaque to the script and are left out. This is the constructor on a descriptor it
  accepts; the rejection of an invalid descriptor is \<open>Stack_checked\<close> below.
\<close>

definition Stack_model :: "App \<Rightarrow> string \<Rightarrow> Environment \<Rightarrow> cdk_error + App" where
  "Stack_model app name env =
     (if name \<in> set (map unit_name (units app)) then Inl (DuplicateName name)
      else Inr (app\<lparr>units := units app @ [\<lparr>unit_name = name, unit_env = env\<rparr>]\<rparr>))"

text \<open>
  Modelled from the spec: the specification leaves the synthesis engine a black box
  ("format and destination are entirely owned by the external engine"), so it is the
  parameter \<open>engine\<close> of the modelled callees.
\<close>

definition cdk_model :: "(App \<Rightarrow> cdk_error + 'out) \<Rightarrow> (App, 'out, cdk_error) collaborators" where
  "cdk_model engine =
     \<lparr>cdk_Environment = Environment_model, cdk_App = App_model,
      AgentBMCPSStack = Stack_model, synth = engine\<rparr>"

text \<open>
  Modelled from the spec: the rejection of an invalid descriptor by the constructor of
  \<open>AgentBMCPSStack\<close>. "The external DeploymentUnit constructor rejects invalid arguments
  (e.g., duplicate name, invalid descriptor)"; a descriptor has "both fields non-empty
  when used for a real deployment", and with an "account or region empty/missing" the
  "construction of the EnvironmentDescriptor or DeploymentUnit fails". The descriptor
  constructor has no error condition, so it is the unit constructor that refuses a
  descriptor with an empty field; a descriptor it accepts is registered by
  \<open>Stack_model\<close>.
\<close>

definition valid_descriptor :: "Environment \<Rightarrow> bool" where
  "valid_descriptor env = (account env \<noteq> [] \<and> region env \<noteq> [])"

definition Stack_checked :: "App \<Rightarrow> string \<Rightarrow> Environment \<Rightarrow> cdk_error + App" where
  "Stack_checked app name env =
     (if valid_descriptor env then Stack_model app name env else Inl InvalidDescriptor)"

definition cdk_checked :: "(App \<Rightarrow> cdk_error + 'out) \<Rightarrow> (App, 'out, cdk_error) collaborators" where
  "cdk_checked engine =
     \<lparr>cdk_Environment = Environment_model, cdk_App = App_model,
      AgentBMCPSStack = Stack_checked, synth = engine\<rparr>"

text \<open>
  Concrete callees for running the script: an engine that renders an application as the
  list of its units, an engine that fails, a stack constructor that rejects its
  arguments, and a descriptor constructor that rejects its arguments.
\<close>

definition render_units :: "App \<Rightarrow> cdk_error + DeploymentUnit list" where
  "render_units app = Inr (units app)"

definition engine_down :: "App \<Rightarrow> cdk_error + DeploymentUnit list" where
  "engine_down app = Inl SynthesisFailed"

definition reject_stack :: "App \<Rightarrow> string \<Rightarrow> Environment \<Rightarrow> cdk_error + App" where
  "reject_stack app name env = Inl ConstructionRejected"

definition cdk_rejecting :: "(App, DeploymentUnit list, cdk_error) collaborators" where
  "cdk_rejecting =
     \<lparr>cdk_Environment = Environment_model, cdk_App = App_model,
      AgentBMCPSStack = reject_stack, synth = render_units\<rparr>"

definition reject_environment :: "string \<Rightarrow> string \<Rightarrow> cdk_error + Environment" where
  "reject_environment a r = Inl ConstructionRejected"

definition cdk_no_descriptor :: "(App, DeploymentUnit list, cdk_error) collaborators" where
  "cdk_no_descriptor =
     \<lparr>cdk_Environment = reject_environment, cdk_App = App_model,
      AgentBMCPSStack = Stack_model, synth = render_units\<rparr>"

section \<open>Properties\<close>

subsection \<open>Runs of the script with the modelled callees\<close>

lemma bootstrap_cdk_model:
  "bootstrap a r (cdk_model engine) =
     ([Call_Environment a r, Call_App,
       Call_Stack \<lparr>units = []\<rparr> ''AgentBMCPSStack'' \<lparr>account = a, region = r\<rparr>,
       Call_synth \<lparr>units = [\<lparr>unit_name = ''AgentBMCPSStack'',
                              unit_env = \<lparr>account = a, region = r\<rparr>\<rparr>]\<rparr>],
      engine \<lparr>units = [\<lparr>unit_name = ''AgentBMCPSStack'',
                        unit_env = \<lparr>account = a, region = r\<rparr>\<rparr>]\<rparr>)"
  by (simp add: bootstrap_def cdk_model_def Environment_model_def App_model_def Stack_model_def)

lemma bootstrap_cdk_rejecting:
  "bootstrap a r cdk_rejecting =
     ([Call_Environment a r, Call_App,
       Call_Stack \<lparr>units = []\<rparr> ''AgentBMCPSStack'' \<lparr>account = a, region = r\<rparr>],
      Inl ConstructionRejected)"
  by (simp add: bootstrap_def cdk_rejecting_def Environment_model_def App_model_def
      reject_stack_def)

lemma bootstrap_cdk_no_descriptor:
  "bootstrap a r cdk_no_descriptor = ([Call_Environment a r], Inl ConstructionRejected)"
  by (simp add: bootstrap_def cdk_no_descriptor_def reject_environment_def)

subsection \<open>Order of the calls\<close>

text \<open>
  C1, as stated: the ApplicationContext is constructed first, then the
  EnvironmentDescriptor, then the DeploymentUnit, then finalize is called. The
  script constructs the EnvironmentDescriptor (line 6) before the ApplicationContext
  (line 11): on the run in which every callee succeeds, the steps are not in the stated
  order.
\<close>

theorem C1_order_counterexample:
  "map step_of (fst (app_py Map.empty (cdk_model render_units))) =
     [Construct_EnvironmentDescriptor, Construct_ApplicationContext,
      Construct_DeploymentUnit, Finalize]
   \<and> map step_of (fst (app_py Map.empty (cdk_model render_units))) \<noteq>
     [Construct_ApplicationContext, Construct_EnvironmentDescriptor,
      Construct_DeploymentUnit, Finalize]"
  by (simp add: app_py_def bootstrap_cdk_model)

text \<open>
  C1, amended: the script constructs one EnvironmentDescriptor, then one
  ApplicationContext, then one DeploymentUnit, and then makes one finalize call. On every
  run the steps made are a prefix of this sequence, so none is duplicated or reordered;
  on a run that completes they are the whole sequence, so none is skipped.
\<close>

theorem C1_call_order:
  "prefix (map step_of (fst (app_py os_environ K)))
     [Construct_EnvironmentDescriptor, Construct_ApplicationContext,
      Construct_DeploymentUnit, Finalize]
   \<and> ((\<exists>out. snd (app_py os_environ K) = Inr out) \<longrightarrow>
        map step_of (fst (app_py os_environ K)) =
          [Construct_EnvironmentDescriptor, Construct_ApplicationContext,
           Construct_DeploymentUnit, Finalize])"
  by (simp add: app_py_def bootstrap_def split: sum.splits)

theorem C1_call_order_witness:
  "(\<exists>out. snd (app_py Map.empty (cdk_model render_units)) = Inr out)
   \<and> map step_of (fst (app_py Map.empty (cdk_model render_units))) =
       [Construct_EnvironmentDescriptor, Construct_ApplicationContext,
        Construct_DeploymentUnit, Finalize]"
proof -
  have completes: "\<exists>out. snd (app_py Map.empty (cdk_model render_units)) = Inr out"
    by (simp add: app_py_def bootstrap_cdk_model render_units_def)
  with C1_call_order [of Map.empty "cdk_model render_units"] show ?thesis
    by blast
qed

subsection \<open>The run with the configured account and region\<close>


subsection \<open>The descriptor\<close>

text \<open>
  C3: for every pair of strings (account, region), the descriptor constructed from the
  pair and passed by the script to the DeploymentUnit constructor yields a unit whose
  recorded environment is the pair itself: the account and the region are the input
  strings, unchanged.
\<close>

theorem C3_pair_recorded:
  "\<exists>env app app'.
     cdk_Environment (cdk_model engine) a r = Inr env
     \<and> Call_Stack app ''AgentBMCPSStack'' env \<in> set (fst (bootstrap a r (cdk_model engine)))
     \<and> AgentBMCPSStack (cdk_model engine) app ''AgentBMCPSStack'' env = Inr app'
     \<and> map unit_name (units app') = [''AgentBMCPSStack'']
     \<and> map (account \<circ> unit_env) (units app') = [a]
     \<and> map (region \<circ> unit_env) (units app') = [r]"
  by (simp add: bootstrap_cdk_model)
    (simp add: cdk_model_def Environment_model_def Stack_model_def)

text \<open>
  C4: constructing a descriptor checks nothing and cannot fail: for every two strings,
  the empty string included, the constructor returns a descriptor that holds exactly
  those two strings.
\<close>

theorem C4_descriptor_no_validation:
  "\<exists>env. (Environment_model a r :: 'exn + Environment) = Inr env
     \<and> account env = a \<and> region env = r"
  by (simp add: Environment_model_def)

subsection \<open>Empty identifiers\<close>

text \<open>
  With a descriptor whose two fields are non-empty, the checking unit constructor
  behaves as \<open>Stack_model\<close>, so the run of the script is the same with either; this
  holds in particular for the two literals of the file.
\<close>

lemma bootstrap_cdk_checked_valid:
  "a \<noteq> [] \<Longrightarrow> r \<noteq> [] \<Longrightarrow> bootstrap a r (cdk_checked engine) = bootstrap a r (cdk_model engine)"
  by (simp add: bootstrap_def cdk_checked_def cdk_model_def Environment_model_def App_model_def
      Stack_checked_def Stack_model_def valid_descriptor_def)

lemma app_py_cdk_checked:
  "app_py os_environ (cdk_checked engine) = app_py os_environ (cdk_model engine)"
  by (simp add: app_py_def bootstrap_cdk_checked_valid)



text \<open>
  C6: nothing in the run changes the descriptor after it is constructed. The descriptor
  the script hands to the DeploymentUnit constructor is the one the descriptor
  constructor returned, and the environment of the unit owned by the application at the
  time of the synth call is that same descriptor.
\<close>

theorem C6_descriptor_unchanged:
  "\<exists>env app app'.
     cdk_Environment (cdk_model engine) ''940333627479'' ''us-east-1'' = Inr env
     \<and> fst (app_py os_environ (cdk_model engine)) =
         [Call_Environment ''940333627479'' ''us-east-1'', Call_App,
          Call_Stack app ''AgentBMCPSStack'' env, Call_synth app']
     \<and> map unit_env (units app') = [env]"
  by (simp add: app_py_def bootstrap_cdk_model)
    (simp add: cdk_model_def Environment_model_def)

subsection \<open>Failures\<close>

text \<open>
  C7: the script handles no error. Whatever the descriptor constructor, the
  DeploymentUnit constructor or synth raises is the outcome of the run, unchanged, and
  the raising call is the last call of the run: nothing is caught, retried or replaced.
\<close>

theorem C7_errors_propagate:
  "(cdk_Environment K ''940333627479'' ''us-east-1'' = Inl e \<longrightarrow>
      app_py os_environ K = ([Call_Environment ''940333627479'' ''us-east-1''], Inl e))
   \<and> (\<forall>env app.
        cdk_Environment K ''940333627479'' ''us-east-1'' = Inr env \<and> cdk_App K = Inr app
        \<and> AgentBMCPSStack K app ''AgentBMCPSStack'' env = Inl e \<longrightarrow>
        app_py os_environ K =
          ([Call_Environment ''940333627479'' ''us-east-1'', Call_App,
            Call_Stack app ''AgentBMCPSStack'' env], Inl e))
   \<and> (\<forall>env app app'.
        cdk_Environment K ''940333627479'' ''us-east-1'' = Inr env \<and> cdk_App K = Inr app
        \<and> AgentBMCPSStack K app ''AgentBMCPSStack'' env = Inr app' \<and> synth K app' = Inl e \<longrightarrow>
        app_py os_environ K =
          ([Call_Environment ''940333627479'' ''us-east-1'', Call_App,
            Call_Stack app ''AgentBMCPSStack'' env, Call_synth app'], Inl e))"
  by (simp add: app_py_def bootstrap_def)

theorem C7_errors_propagate_witness:
  "cdk_Environment cdk_no_descriptor ''940333627479'' ''us-east-1'' = Inl ConstructionRejected
   \<and> snd (app_py Map.empty cdk_no_descriptor) = Inl ConstructionRejected
   \<and> AgentBMCPSStack cdk_rejecting \<lparr>units = []\<rparr> ''AgentBMCPSStack''
        \<lparr>account = ''940333627479'', region = ''us-east-1''\<rparr> = Inl ConstructionRejected
   \<and> snd (app_py Map.empty cdk_rejecting) = Inl ConstructionRejected
   \<and> synth (cdk_model engine_down)
        \<lparr>units = [\<lparr>unit_name = ''AgentBMCPSStack'',
          unit_env = \<lparr>account = ''940333627479'', region = ''us-east-1''\<rparr>\<rparr>]\<rparr> = Inl SynthesisFailed
   \<and> snd (app_py Map.empty (cdk_model engine_down)) = Inl SynthesisFailed"
proof -
  let ?env = "\<lparr>account = ''940333627479'', region = ''us-east-1''\<rparr>"
  let ?app' = "\<lparr>units = [\<lparr>unit_name = ''AgentBMCPSStack'', unit_env = ?env\<rparr>]\<rparr>"
  have d: "cdk_Environment cdk_no_descriptor ''940333627479'' ''us-east-1''
             = Inl ConstructionRejected"
    by (simp add: cdk_no_descriptor_def reject_environment_def)
  have s1: "cdk_Environment cdk_rejecting ''940333627479'' ''us-east-1'' = Inr ?env"
    and s2: "cdk_App cdk_rejecting = Inr \<lparr>units = []\<rparr>"
    and s3: "AgentBMCPSStack cdk_rejecting \<lparr>units = []\<rparr> ''AgentBMCPSStack'' ?env
               = Inl ConstructionRejected"
    by (simp_all add: cdk_rejecting_def Environment_model_def App_model_def reject_stack_def)
  have y1: "cdk_Environment (cdk_model engine_down) ''940333627479'' ''us-east-1'' = Inr ?env"
    and y2: "cdk_App (cdk_model engine_down) = Inr \<lparr>units = []\<rparr>"
    and y3: "AgentBMCPSStack (cdk_model engine_down) \<lparr>units = []\<rparr> ''AgentBMCPSStack'' ?env
               = Inr ?app'"
    and y4: "synth (cdk_model engine_down) ?app' = Inl SynthesisFailed"
    by (simp_all add: cdk_model_def Environment_model_def App_model_def Stack_model_def
        engine_down_def)
  from d C7_errors_propagate [of cdk_no_descriptor ConstructionRejected Map.empty]
  have "snd (app_py Map.empty cdk_no_descriptor) = Inl ConstructionRejected"
    by simp
  moreover from s1 s2 s3 C7_errors_propagate [of cdk_rejecting ConstructionRejected Map.empty]
  have "snd (app_py Map.empty cdk_rejecting) = Inl ConstructionRejected"
    by simp
  moreover from y1 y2 y3 y4
    C7_errors_propagate [of "cdk_model engine_down" SynthesisFailed Map.empty]
  have "snd (app_py Map.empty (cdk_model engine_down)) = Inl SynthesisFailed"
    by simp
  ultimately show ?thesis using d s3 y4 by simp
qed

text \<open>
  C10: if the DeploymentUnit constructor raises, synth is not called, the run ends with
  the constructor's error and produces no output.
\<close>

theorem C10_no_synth_after_failed_stack:
  assumes "cdk_Environment K ''940333627479'' ''us-east-1'' = Inr env"
    and "cdk_App K = Inr app"
    and "AgentBMCPSStack K app ''AgentBMCPSStack'' env = Inl e"
  shows "filter is_synth (fst (app_py os_environ K)) = []
         \<and> snd (app_py os_environ K) = Inl e
         \<and> (\<nexists>out. snd (app_py os_environ K) = Inr out)"
  using assms by (simp add: app_py_def bootstrap_def)

theorem C10_no_synth_after_failed_stack_witness:
  "AgentBMCPSStack cdk_rejecting \<lparr>units = []\<rparr> ''AgentBMCPSStack''
     \<lparr>account = ''940333627479'', region = ''us-east-1''\<rparr> = Inl ConstructionRejected
   \<and> filter is_synth (fst (app_py Map.empty cdk_rejecting)) = []
   \<and> snd (app_py Map.empty cdk_rejecting) = Inl ConstructionRejected"
proof -
  let ?env = "\<lparr>account = ''940333627479'', region = ''us-east-1''\<rparr>"
  have s1: "cdk_Environment cdk_rejecting ''940333627479'' ''us-east-1'' = Inr ?env"
    and s2: "cdk_App cdk_rejecting = Inr \<lparr>units = []\<rparr>"
    and s3: "AgentBMCPSStack cdk_rejecting \<lparr>units = []\<rparr> ''AgentBMCPSStack'' ?env
               = Inl ConstructionRejected"
    by (simp_all add: cdk_rejecting_def Environment_model_def App_model_def reject_stack_def)
  from C10_no_synth_after_failed_stack [OF s1 s2 s3, of Map.empty] s3
  show ?thesis by simp
qed

subsection \<open>Independence of the process environment, determinism\<close>

text \<open>
  C8: the run does not depend on the process environment. Two runs whose process
  environments differ in any way, in particular in the value or the presence of
  CDK_DEFAULT_ACCOUNT and CDK_DEFAULT_REGION, make the same calls with the same
  arguments and have the same outcome; the descriptor is constructed from the two
  literals.
\<close>

theorem C8_process_environment_unused:
  "app_py os_environ K = app_py os_environ' K
   \<and> hd (fst (app_py os_environ K)) = Call_Environment ''940333627479'' ''us-east-1''"
  by (simp add: app_py_def bootstrap_def split: sum.splits)

text \<open>
  C9: two runs of the script, each with its own callees, make the same calls with the
  same arguments and have the same outcome whenever the callees of the two runs answer
  alike the calls the script makes (the synthesis engine renders the same application to
  the same output in both runs).
\<close>

theorem C9_deterministic:
  assumes "cdk_Environment K ''940333627479'' ''us-east-1''
             = cdk_Environment K' ''940333627479'' ''us-east-1''"
    and "cdk_App K = cdk_App K'"
    and "\<forall>app env. AgentBMCPSStack K app ''AgentBMCPSStack'' env
                     = AgentBMCPSStack K' app ''AgentBMCPSStack'' env"
    and "\<forall>app. synth K app = synth K' app"
  shows "app_py os_environ K = app_py os_environ' K'"
  using assms by (simp add: app_py_def bootstrap_def split: sum.splits)

theorem C9_deterministic_witness:
  "cdk_Environment (cdk_model render_units) ''940333627479'' ''us-east-1''
     = cdk_Environment (cdk_model render_units) ''940333627479'' ''us-east-1''
   \<and> app_py Map.empty (cdk_model render_units)
     = app_py [''CDK_DEFAULT_ACCOUNT'' \<mapsto> ''111111111111''] (cdk_model render_units)
   \<and> snd (app_py Map.empty (cdk_model render_units))
     = Inr [\<lparr>unit_name = ''AgentBMCPSStack'',
             unit_env = \<lparr>account = ''940333627479'', region = ''us-east-1''\<rparr>\<rparr>]"
proof -
  have same:
    "app_py Map.empty (cdk_model render_units)
       = app_py [''CDK_DEFAULT_ACCOUNT'' \<mapsto> ''111111111111''] (cdk_model render_units)"
    by (rule C9_deterministic) simp_all
  have "snd (app_py Map.empty (cdk_model render_units))
          = Inr [\<lparr>unit_name = ''AgentBMCPSStack'',
                  unit_env = \<lparr>account = ''940333627479'', region = ''us-east-1''\<rparr>\<rparr>]"
    by (simp add: app_py_def bootstrap_cdk_model render_units_def)
  with same show ?thesis by simp
qed

end
